theory Spec2Isabelle
  imports Complex_Main "HOL-Library.Sublist"
begin

section \<open>JavaScript values used by the client code\<close>

text \<open>
  The client is TypeScript running as JavaScript. A property that may be absent is an
  \<open>option\<close> (\<open>None\<close> is \<^verbatim>\<open>undefined\<close>); a string is the list of the bytes of
  its UTF-8 encoding. A string is
  truthy when it is present and not empty, which is what \<^verbatim>\<open>a || b\<close> and
  \<^verbatim>\<open>a && b\<close> test. Object literals used as lookup tables are association lists
  read with \<open>map_of\<close>; the keys looked up in this development are the role and action
  ids of the application, none of which is a property inherited from
  \<^verbatim>\<open>Object.prototype\<close>.
\<close>

definition truthy :: "string option \<Rightarrow> bool" where
  "truthy v = (case v of None \<Rightarrow> False | Some s \<Rightarrow> s \<noteq> [])"

text \<open>\<^verbatim>\<open>a || b\<close> on an optional string with a string default.\<close>

definition or_else :: "string option \<Rightarrow> string \<Rightarrow> string" where
  "or_else v d = (case v of None \<Rightarrow> d | Some s \<Rightarrow> if s = [] then d else s)"

text \<open>\<^verbatim>\<open>String.prototype.includes\<close>: the needle occurs as a contiguous run.\<close>

fun str_includes :: "string \<Rightarrow> string \<Rightarrow> bool" where
  "str_includes [] needle = (needle = [])"
| "str_includes (c # cs) needle = (prefix needle (c # cs) \<or> str_includes cs needle)"

text \<open>
  The code points \<^verbatim>\<open>String.prototype.trim\<close> strips, each as its UTF-8 bytes: the
  white space of the language (tab, vertical tab, form feed, U+FEFF and the space
  separators U+0020, U+00A0, U+1680, U+2000 to U+200A, U+202F, U+205F, U+3000) and its
  line terminators (line feed, carriage return, U+2028, U+2029).
\<close>

definition white_space :: "string list" where
  "white_space =
     [[CHR 0x09], [CHR 0x0A], [CHR 0x0B], [CHR 0x0C], [CHR 0x0D], [CHR 0x20],
      [CHR 0xC2, CHR 0xA0],
      [CHR 0xE1, CHR 0x9A, CHR 0x80],
      [CHR 0xE2, CHR 0x80, CHR 0x80], [CHR 0xE2, CHR 0x80, CHR 0x81],
      [CHR 0xE2, CHR 0x80, CHR 0x82], [CHR 0xE2, CHR 0x80, CHR 0x83],
      [CHR 0xE2, CHR 0x80, CHR 0x84], [CHR 0xE2, CHR 0x80, CHR 0x85],
      [CHR 0xE2, CHR 0x80, CHR 0x86], [CHR 0xE2, CHR 0x80, CHR 0x87],
      [CHR 0xE2, CHR 0x80, CHR 0x88], [CHR 0xE2, CHR 0x80, CHR 0x89],
      [CHR 0xE2, CHR 0x80, CHR 0x8A],
      [CHR 0xE2, CHR 0x80, CHR 0xA8], [CHR 0xE2, CHR 0x80, CHR 0xA9],
      [CHR 0xE2, CHR 0x80, CHR 0xAF],
      [CHR 0xE2, CHR 0x81, CHR 0x9F],
      [CHR 0xE3, CHR 0x80, CHR 0x80],
      [CHR 0xEF, CHR 0xBB, CHR 0xBF]]"

text \<open>
  Removing from the front of \<open>s\<close> every leading occurrence of one of the byte
  sequences \<open>ws\<close>.
\<close>

function strip :: "string list \<Rightarrow> string \<Rightarrow> string" where
  "strip ws s =
     (case find (\<lambda>w. w \<noteq> [] \<and> prefix w s) ws of
        None \<Rightarrow> s
      | Some w \<Rightarrow> strip ws (drop (length w) s))"
  by pat_completeness auto
termination
  by (relation "measure (\<lambda>(ws, s). length s)") (auto simp: find_Some_iff prefix_def)

text \<open>
  \<^verbatim>\<open>String.prototype.trim\<close>: the white space is stripped from the front and, read
  backwards, from the end.
\<close>

definition trim :: "string \<Rightarrow> string" where
  "trim s = rev (strip (map rev white_space) (rev (strip white_space s)))"

text \<open>
  The text a handler stores with \<^verbatim>\<open>setError\<close>. \<open>Text\<close> is a literal of the
  source or a text taken from a response. \<open>EngineText\<close> is the \<^verbatim>\<open>err.message\<close> of
  an error raised by the engine itself (a \<^verbatim>\<open>TypeError\<close> for reading a property of
  \<^verbatim>\<open>null\<close> or calling something that is not a function, a rejected \<^verbatim>\<open>fetch\<close>, a
  body that is not JSON). \<open>RemovalWarning original cleaned\<close> is the warning template of
  \<^verbatim>\<open>DataCleaning\<close>, which prints the number of removed rows and their percentage.
\<close>

datatype message = Text string | EngineText | RemovalWarning nat nat

section \<open>Natural-language query: \<^verbatim>\<open>utils/api.ts\<close> and \<^verbatim>\<open>NaturalLanguageQuery.tsx\<close>\<close>

text \<open>
  The object the NLQ endpoint answers with (\<^verbatim>\<open>result.type\<close>, \<^verbatim>\<open>result.message\<close>,
  \<^verbatim>\<open>result.data\<close>, \<^verbatim>\<open>result.result\<close>); payloads are opaque.
\<close>

record nlq_result =
  rtype :: "string option"
  rmessage :: "string option"
  rdata :: "string option"
  rresult :: "string option"

text \<open>
  What \<^verbatim>\<open>await apiService.naturalLanguageQuery(...)\<close> evaluates to: \<^verbatim>\<open>null\<close> or
  \<^verbatim>\<open>undefined\<close>, a primitive (truthy or not), or an object.
\<close>

datatype nlq_value = VNull | VPrim bool | VObj nlq_result

text \<open>
  The outcome of an \<^verbatim>\<open>axios\<close> request inside a method of \<^verbatim>\<open>apiService\<close>: the
  body of the response, or a rejection carrying \<^verbatim>\<open>error.response?.data?.detail\<close>.
\<close>

datatype 'a axios_outcome = AxiosOk 'a | AxiosErr "string option"

definition naturalLanguageQuery :: "nlq_value axios_outcome \<Rightarrow> nlq_value" where
  "naturalLanguageQuery out =
     (case out of
        AxiosOk v \<Rightarrow> v
      | AxiosErr detail \<Rightarrow>
          VObj \<lparr>rtype = Some ''error'',
                rmessage = Some (or_else detail ''Failed to process natural language query.''),
                rdata = None, rresult = None\<rparr>)"

record NLQResponse =
  success :: bool
  query :: string
  answer :: string
  visualization :: "string option"
  data :: "string option"
  confidence :: nat
  intent :: string

definition calculateConfidence :: "nlq_result \<Rightarrow> nat" where
  "calculateConfidence r =
     (let baseConfidence = 80 in
      if rtype r = Some ''error'' then 0
      else if truthy (rmessage r) \<and> str_includes (the (rmessage r)) ''No suitable columns'' then 30
      else if truthy (rmessage r) \<and> str_includes (the (rmessage r)) ''insufficient data'' then 40
      else baseConfidence)"

definition generateAnswerFromResult :: "nlq_result \<Rightarrow> string" where
  "generateAnswerFromResult r =
     (if truthy (rmessage r) then the (rmessage r)
      else if rtype r = Some ''summary'' then
        ''Data summary analysis completed. Check the detailed statistics below.''
      else if rtype r = Some ''trend'' then
        ''Trend analysis completed. Check the detailed trend information below.''
      else if rtype r = Some ''distribution'' then
        ''Distribution analysis completed. Check the detailed distribution statistics below.''
      else if rtype r = Some ''comparison'' then
        ''Comparison analysis completed. Check the detailed comparison results below.''
      else if rtype r = Some ''correlation'' then
        ''Correlation analysis completed. Check the detailed correlation matrix below.''
      else if rtype r = Some ''outlier'' then
        ''Outlier detection completed. Check the detailed outlier information below.''
      else if rtype r = Some ''percentage'' then
        ''Percentage distribution analysis completed. Check the detailed breakdown below.''
      else if rtype r = Some ''clustering'' then
        ''Clustering analysis completed. Check the detailed cluster information below.''
      else if rtype r = Some ''data_types'' then
        ''Data types analysis completed. Check the detailed column information below.''
      else if rtype r = Some ''forecasting'' then
        ''Forecasting analysis completed. Check the detailed forecast below.''
      else ''Analysis completed successfully.'')"

text \<open>The component state of \<^verbatim>\<open>NaturalLanguageQuery\<close> (its \<^verbatim>\<open>useState\<close> cells).\<close>

record nlq_state =
  nq_query :: string
  nq_isLoading :: bool
  nq_response :: "NLQResponse option"
  nq_error :: "message option"
  nq_queryHistory :: "NLQResponse list"

text \<open>
  \<^verbatim>\<open>a || b\<close> on two optional payloads.
\<close>

definition or_opt :: "string option \<Rightarrow> string option \<Rightarrow> string option" where
  "or_opt a b = (if truthy a then a else b)"

text \<open>
  \<^verbatim>\<open>handleSubmit\<close>. The session id is the component's prop, \<open>out\<close> is what the
  request does. The result is the new state and the argument \<^verbatim>\<open>onQueryComplete\<close>
  is called with, when it is called. An early \<^verbatim>\<open>return\<close> inside \<^verbatim>\<open>try\<close> still
  runs \<^verbatim>\<open>finally\<close>, which clears \<open>isLoading\<close>.
\<close>

definition handleSubmit ::
  "string option \<Rightarrow> nlq_value axios_outcome \<Rightarrow> nlq_state \<Rightarrow> nlq_state \<times> NLQResponse option" where
  "handleSubmit sessionId out s =
     (if trim (nq_query s) = [] \<or> \<not> truthy sessionId then (s, None)
      else
        let s1 = s\<lparr>nq_isLoading := True, nq_error := None\<rparr> in
        case naturalLanguageQuery out of
          VNull \<Rightarrow> (s1\<lparr>nq_error := Some EngineText, nq_isLoading := False\<rparr>, None)
        | VPrim b \<Rightarrow>
            (s1\<lparr>nq_error := Some (Text ''Invalid response format from server''),
                nq_isLoading := False\<rparr>, None)
        | VObj r \<Rightarrow>
            if rtype r = Some ''error'' then
              (s1\<lparr>nq_error := Some (Text (or_else (rmessage r) ''Failed to process query'')),
                  nq_isLoading := False\<rparr>, None)
            else
              let nlqResponse =
                    \<lparr>success = True,
                     query = trim (nq_query s),
                     answer = (if truthy (rmessage r) then the (rmessage r)
                               else generateAnswerFromResult r),
                     visualization = None,
                     data = or_opt (rdata r) (rresult r),
                     confidence = calculateConfidence r,
                     intent = or_else (rtype r) ''analysis''\<rparr>
              in (s1\<lparr>nq_response := Some nlqResponse,
                      nq_queryHistory := nlqResponse # take 4 (nq_queryHistory s1),
                      nq_isLoading := False\<rparr>,
                  Some nlqResponse))"

section \<open>The methods of \<^verbatim>\<open>apiService\<close> (\<^verbatim>\<open>utils/api.ts\<close>)\<close>

text \<open>The own properties of the object literal \<^verbatim>\<open>apiService\<close>, in source order.\<close>

definition apiService_methods :: "string list" where
  "apiService_methods =
     [''healthCheck'', ''register'', ''login'', ''logout'', ''validateSession'',
      ''getProfile'', ''updateProfile'', ''adminGetUsers'', ''adminGetUserDetails'',
      ''adminUpdateUserRole'', ''adminToggleUserStatus'', ''adminDeleteUser'',
      ''adminGetStats'', ''adminGetErrors'', ''adminGetActions'', ''uploadFile'',
      ''runAnalysis'', ''getAnalyses'', ''getAnalysisResult'', ''downloadReport'',
      ''generateReports'', ''businessAnalysisUpload'', ''getBusinessAnalyses'',
      ''getBusinessAnalysisDetails'', ''cleanData'', ''getAIInsight'', ''previewData'',
      ''downloadData'', ''getAvailableRoles'', ''naturalLanguageQuery'',
      ''assessDataQuality'', ''generateDecisionIntelligence'']"

datatype js_error = TypeError

text \<open>
  \<^verbatim>\<open>apiService.name(...)\<close>: when \<open>name\<close> is not a property of the object the
  expression \<^verbatim>\<open>apiService.name\<close> is \<^verbatim>\<open>undefined\<close> and calling it raises a
  \<^verbatim>\<open>TypeError\<close> before any request is made; otherwise the method runs and gives
  \<open>result\<close>.
\<close>

definition call_apiService :: "string \<Rightarrow> 'a \<Rightarrow> js_error + 'a" where
  "call_apiService name result =
     (if name \<in> set apiService_methods then Inr result else Inl TypeError)"

definition API_BASE_URL :: string where
  "API_BASE_URL = ''http://localhost:8000/api''"

record http_request =
  req_method :: string
  req_url :: string
  req_authorization :: string

text \<open>
  The request \<^verbatim>\<open>runAnalysis(sessionToken, analysisId, role)\<close> posts. A template
  literal prints a string argument as it is.
\<close>

definition runAnalysis :: "string \<Rightarrow> string \<Rightarrow> string \<Rightarrow> http_request" where
  "runAnalysis sessionToken analysisId role =
     \<lparr>req_method = ''POST'',
      req_url = API_BASE_URL @ ''/analyze/'' @ role @ ''/analyze/'' @ analysisId,
      req_authorization = ''Bearer '' @ sessionToken\<rparr>"

text \<open>
  What \<^verbatim>\<open>getAIInsight\<close> and the cleaning insight call answer with:
  \<^verbatim>\<open>result.insight\<close>, \<^verbatim>\<open>result.summary\<close>, \<^verbatim>\<open>result.message\<close>. A primitive
  body has none of the three and reads as an object without them.
\<close>

record ai_result =
  ai_insight :: "string option"
  ai_summary :: "string option"
  ai_message :: "string option"

datatype ai_value = AINull | AIObj ai_result

text \<open>
  \<^verbatim>\<open>getAIInsight\<close> never rejects: a failed request becomes the object
  \<^verbatim>\<open>{ error: ... }\<close>, which has no insight, summary or message.
\<close>

definition getAIInsight :: "ai_value axios_outcome \<Rightarrow> ai_value" where
  "getAIInsight out =
     (case out of
        AxiosOk v \<Rightarrow> v
      | AxiosErr detail \<Rightarrow> AIObj \<lparr>ai_insight = None, ai_summary = None, ai_message = None\<rparr>)"

section \<open>The role-analysis page (\<^verbatim>\<open>data/roles.ts\<close>, \<^verbatim>\<open>pages/RoleAnalysis.tsx\<close>)\<close>

text \<open>A role of \<^verbatim>\<open>roles.ts\<close>: its id and name (description, icon and colour are left out).\<close>

record RoleData =
  role_id :: string
  role_name :: string

definition roles :: "RoleData list" where
  "roles =
     [\<lparr>role_id = ''business_analyst'', role_name = ''Business Analyst''\<rparr>,
      \<lparr>role_id = ''research-eda'', role_name = ''Research & EDA''\<rparr>,
      \<lparr>role_id = ''marketing'', role_name = ''Marketing Analytics''\<rparr>,
      \<lparr>role_id = ''finance'', role_name = ''Financial Analysis''\<rparr>,
      \<lparr>role_id = ''predictive-modeling'', role_name = ''Predictive Modeling''\<rparr>,
      \<lparr>role_id = ''healthcare'', role_name = ''Healthcare Analytics''\<rparr>,
      \<lparr>role_id = ''ecommerce'', role_name = ''E-commerce''\<rparr>,
      \<lparr>role_id = ''general'', role_name = ''General Analysis''\<rparr>]"

text \<open>\<^verbatim>\<open>roles.find(r => r.id === roleId)\<close>, with the route parameter \<open>roleId\<close>.\<close>

definition find_role :: "string option \<Rightarrow> RoleData option" where
  "find_role roleId = find (\<lambda>r. Some (role_id r) = roleId) roles"

text \<open>The table \<^verbatim>\<open>roleMapping\<close> of \<^verbatim>\<open>handleAnalysis\<close>.\<close>

definition roleMapping :: "(string \<times> string) list" where
  "roleMapping =
     [(''business-analyst'', ''business''),
      (''research-eda'', ''research''),
      (''marketing'', ''marketing''),
      (''finance'', ''financial''),
      (''predictive-modeling'', ''predictive''),
      (''healthcare'', ''healthcare''),
      (''ecommerce'', ''ecommerce''),
      (''general'', ''general'')]"

text \<open>\<^verbatim>\<open>roleMapping[id] || id\<close>.\<close>

definition backendRole :: "string \<Rightarrow> string" where
  "backendRole rid = or_else (map_of roleMapping rid) rid"

text \<open>
  \<^verbatim>\<open>handleAnalysis(task)\<close>: the request it issues, if it issues one. The page state
  it sets from the response afterwards is not part of this model.
\<close>

definition handleAnalysis :: "string option \<Rightarrow> string option \<Rightarrow> string \<Rightarrow> http_request option" where
  "handleAnalysis sessionId roleId task =
     (case find_role roleId of
        None \<Rightarrow> None
      | Some role \<Rightarrow>
          if \<not> truthy sessionId then None
          else Some (runAnalysis (backendRole (role_id role)) task (the sessionId)))"

record AIInsight =
  question :: string
  response :: message
  timestamp :: nat

record insight_state =
  insights :: "AIInsight list"
  isProcessingInsight :: bool
  page_error :: "message option"

text \<open>
  The test
  \<^verbatim>\<open>/\b(clean|fix|remove errors|correct|repair|impute|standardize)\b/i\<close>:
  one of the words occurs, compared without case, with no word character
  (\<^verbatim>\<open>[A-Za-z0-9_]\<close>) directly before or after it.
\<close>

definition is_word_char :: "char \<Rightarrow> bool" where
  "is_word_char c =
     (c \<in> set ''abcdefghijklmnopqrstuvwxyzABCDEFGHIJKLMNOPQRSTUVWXYZ0123456789_'')"

definition lower_char :: "char \<Rightarrow> char" where
  "lower_char c =
     (case map_of (zip ''ABCDEFGHIJKLMNOPQRSTUVWXYZ'' ''abcdefghijklmnopqrstuvwxyz'') c of
        None \<Rightarrow> c | Some l \<Rightarrow> l)"

definition clean_words :: "string list" where
  "clean_words =
     [''clean'', ''fix'', ''remove errors'', ''correct'', ''repair'', ''impute'', ''standardize'']"

definition boundary :: "char option \<Rightarrow> bool" where
  "boundary c = (case c of None \<Rightarrow> True | Some d \<Rightarrow> \<not> is_word_char d)"

definition word_at :: "string \<Rightarrow> string \<Rightarrow> bool" where
  "word_at w s =
     (prefix w (map lower_char s) \<and>
      boundary (case drop (length w) s of [] \<Rightarrow> None | d # ds \<Rightarrow> Some d))"

fun clean_scan :: "char option \<Rightarrow> string \<Rightarrow> bool" where
  "clean_scan prev [] = False"
| "clean_scan prev (c # cs) =
     ((boundary prev \<and> list_ex (\<lambda>w. word_at w (c # cs)) clean_words) \<or> clean_scan (Some c) cs)"

definition cleanIntent :: "string \<Rightarrow> bool" where
  "cleanIntent q = clean_scan None q"

text \<open>
  \<^verbatim>\<open>handleAIInsight(question)\<close>. \<open>now\<close> is the value of \<^verbatim>\<open>new Date()\<close>,
  \<open>cleanOut\<close> and \<open>insightOut\<close> are what the two calls would answer. Both the
  \<^verbatim>\<open>try\<close> branches and the \<^verbatim>\<open>catch\<close> branch append to \<open>insights\<close>.
\<close>

definition handleAIInsight ::
  "string option \<Rightarrow> string option \<Rightarrow> nat \<Rightarrow> ai_value \<Rightarrow> ai_value axios_outcome \<Rightarrow> string \<Rightarrow>
   insight_state \<Rightarrow> insight_state" where
  "handleAIInsight sessionId roleId now cleanOut insightOut q s =
     (if \<not> truthy sessionId \<or> find_role roleId = None then s
      else
        let s1 = s\<lparr>isProcessingInsight := True\<rparr>;
            failed = (\<lambda>st. st\<lparr>insights := insights st @
                                   [\<lparr>question = q, response = EngineText, timestamp = now\<rparr>],
                                 page_error := Some EngineText,
                                 isProcessingInsight := False\<rparr>)
        in
        if cleanIntent q then
          (case call_apiService ''aiClean'' cleanOut of
             Inl e \<Rightarrow> failed s1
           | Inr AINull \<Rightarrow> failed s1
           | Inr (AIObj r) \<Rightarrow>
               s1\<lparr>insights := insights s1 @
                     [\<lparr>question = q,
                       response = Text (or_else (ai_summary r)
                                         (or_else (ai_message r) ''Data cleaned successfully.'')),
                       timestamp = now\<rparr>],
                   isProcessingInsight := False\<rparr>)
        else
          (case call_apiService ''getAIInsight'' (getAIInsight insightOut) of
             Inl e \<Rightarrow> failed s1
           | Inr AINull \<Rightarrow> failed s1
           | Inr (AIObj r) \<Rightarrow>
               s1\<lparr>insights := insights s1 @
                     [\<lparr>question = q,
                       response = Text (or_else (ai_insight r)
                                         (or_else (ai_message r) ''Analysis completed successfully.'')),
                       timestamp = now\<rparr>],
                   isProcessingInsight := False\<rparr>))"

text \<open>A call of \<^verbatim>\<open>handleAIInsight\<close>: the clock, the two answers, the question.\<close>

type_synonym insight_call = "nat \<times> ai_value \<times> ai_value axios_outcome \<times> string"

fun run_insights ::
  "string option \<Rightarrow> string option \<Rightarrow> insight_call list \<Rightarrow> insight_state \<Rightarrow> insight_state" where
  "run_insights sessionId roleId [] s = s"
| "run_insights sessionId roleId ((now, cleanOut, insightOut, q) # cs) s =
     run_insights sessionId roleId cs (handleAIInsight sessionId roleId now cleanOut insightOut q s)"

text \<open>A sequence of \<^verbatim>\<open>handleSubmit\<close> calls, the query typed before each one.\<close>

fun run_queries ::
  "string option \<Rightarrow> (string \<times> nlq_value axios_outcome) list \<Rightarrow> nlq_state \<Rightarrow> nlq_state" where
  "run_queries sessionId [] s = s"
| "run_queries sessionId ((q, out) # cs) s =
     run_queries sessionId cs (fst (handleSubmit sessionId out (s\<lparr>nq_query := q\<rparr>)))"

section \<open>Data cleaning on the client (\<^verbatim>\<open>DataCleaning\<close>)\<close>

text \<open>A row of a preview: the cells by column name.\<close>

type_synonym row = "(string \<times> string) list"

text \<open>The ids of \<^verbatim>\<open>cleaningActions\<close>, in the order the cards are shown.\<close>

definition cleaningActions :: "string list" where
  "cleaningActions =
     [''remove-nulls'', ''normalize'', ''one-hot-encode'', ''drop-duplicates'',
      ''aggregate'', ''impute'', ''feature-engineering'', ''data-validation'']"

definition operationMap :: "(string \<times> string) list" where
  "operationMap =
     [(''remove-nulls'', ''remove_nulls''),
      (''drop-duplicates'', ''drop_duplicates''),
      (''impute'', ''impute_missing''),
      (''normalize'', ''normalize_data''),
      (''one-hot-encode'', ''one_hot_encode''),
      (''aggregate'', ''aggregate_data''),
      (''feature-engineering'', ''feature_engineering''),
      (''data-validation'', ''data_validation'')]"

text \<open>The eight operation names of the cleaning pipeline.\<close>

definition supported_operations :: "string list" where
  "supported_operations =
     [''remove_nulls'', ''drop_duplicates'', ''impute_missing'', ''normalize_data'',
      ''one_hot_encode'', ''aggregate_data'', ''feature_engineering'', ''data_validation'']"

text \<open>
  \<^verbatim>\<open>toggleAction\<close>: a selected id is removed, an unselected one is appended.
\<close>

definition toggleAction :: "string \<Rightarrow> string list \<Rightarrow> string list" where
  "toggleAction actionId prev =
     (if actionId \<in> set prev then filter (\<lambda>i. i \<noteq> actionId) prev else prev @ [actionId])"

text \<open>The selection after a sequence of clicks, starting from no selection.\<close>

definition clicks :: "string list \<Rightarrow> string list" where
  "clicks ids = foldl (\<lambda>sel i. toggleAction i sel) [] ids"

text \<open>
  \<^verbatim>\<open>selectedActions.map(id => operationMap[id]).filter(Boolean)\<close>: an id without an
  entry maps to \<^verbatim>\<open>undefined\<close> and is filtered out; no entry is the empty string.
\<close>

definition operations_of :: "string list \<Rightarrow> string list" where
  "operations_of selectedActions = List.map_filter (map_of operationMap) selectedActions"

text \<open>The table \<^verbatim>\<open>roleMapping\<close> of \<^verbatim>\<open>handleApplySelected\<close>.\<close>

definition cleaning_roleMapping :: "(string \<times> string) list" where
  "cleaning_roleMapping =
     [(''business-analyst'', ''business''),
      (''research-eda'', ''research''),
      (''marketing'', ''marketing''),
      (''finance'', ''financial''),
      (''predictive-modeling'', ''predictive''),
      (''healthcare'', ''healthcare''),
      (''ecommerce'', ''ecommerce''),
      (''general'', ''general'')]"

text \<open>The body of the POST to \<^verbatim>\<open>/clean/{role}\<close> and its address.\<close>

record clean_request =
  clean_url :: string
  operations :: "string list"
  session_id :: string

text \<open>
  The JSON object of a successful answer: \<^verbatim>\<open>preview\<close>,
  \<^verbatim>\<open>validation_results\<close> (opaque), \<^verbatim>\<open>ai_recommendations\<close>, \<^verbatim>\<open>rows\<close>.
\<close>

record clean_result =
  cr_preview :: "row list option"
  cr_validation_results :: "string option"
  cr_ai_recommendations :: "string list option"
  cr_rows :: "nat option"

datatype clean_body = BodyInvalid | BodyNull | BodyObj clean_result

text \<open>
  What \<^verbatim>\<open>fetch\<close> does: it rejects, or it resolves to a response with
  \<^verbatim>\<open>response.ok\<close>, \<^verbatim>\<open>response.statusText\<close> and a body.
\<close>

datatype fetch_outcome = FetchRejected | FetchResponse bool string clean_body

record cleaning_state =
  selectedActions :: "string list"
  isProcessing :: bool
  cleanedData :: "row list"
  originalData :: "row list"
  cl_error :: "message option"
  validationResults :: "string option"
  aiRecommendations :: "string list"
  showAiRecommendations :: bool

text \<open>
  The catch branch and the \<^verbatim>\<open>finally\<close> of \<^verbatim>\<open>handleApplySelected\<close>.
\<close>

definition cleaning_failed :: "message \<Rightarrow> cleaning_state \<Rightarrow> cleaning_state" where
  "cleaning_failed m st = st\<lparr>cl_error := Some m, isProcessing := False\<rparr>"

text \<open>\<^verbatim>\<open>result.rows || 0\<close>.\<close>

definition rows_or_zero :: "nat option \<Rightarrow> nat" where
  "rows_or_zero rows = (case rows of None \<Rightarrow> 0 | Some n \<Rightarrow> n)"

text \<open>
  The removal test \<^verbatim>\<open>cleanedCount < originalCount * 0.8\<close>, on exact numbers.
\<close>

definition significantly_reduced :: "nat \<Rightarrow> nat \<Rightarrow> bool" where
  "significantly_reduced originalCount cleanedCount =
     (real cleanedCount < real originalCount * 0.8)"

text \<open>
  \<^verbatim>\<open>handleApplySelected\<close>. \<open>preview\<close>, \<open>role\<close> and \<open>sessionId\<close> are the props,
  \<open>out\<close> is what \<^verbatim>\<open>fetch\<close> does when it is called. The result is the new state and
  the request sent, if one is sent. \<^verbatim>\<open>originalData.length\<close> reads the state the
  handler was created with: \<^verbatim>\<open>setOriginalData\<close> at the top of the handler does not
  change the constant the closure holds.
\<close>

definition handleApplySelected ::
  "row list option \<Rightarrow> string \<Rightarrow> string \<Rightarrow> fetch_outcome \<Rightarrow> cleaning_state \<Rightarrow>
   cleaning_state \<times> clean_request option" where
  "handleApplySelected preview role sessionId out s =
     (let s1 = s\<lparr>isProcessing := True, cl_error := None\<rparr>;
          s2 = (case preview of
                  None \<Rightarrow> s1
                | Some p \<Rightarrow> if length p > 0 then s1\<lparr>originalData := p\<rparr> else s1);
          ops = operations_of (selectedActions s)
      in
      if ops = [] then
        (s2\<lparr>cl_error := Some (Text ''Please select at least one cleaning action.''),
            isProcessing := False\<rparr>, None)
      else
        let request = \<lparr>clean_url = ''http://localhost:5000/clean/'' @
                                     or_else (map_of cleaning_roleMapping role) role,
                       operations = ops,
                       session_id = sessionId\<rparr>
        in
        (case out of
           FetchRejected \<Rightarrow> cleaning_failed EngineText s2
         | FetchResponse ok statusText body \<Rightarrow>
             if \<not> ok then cleaning_failed (Text (''Cleaning failed: '' @ statusText)) s2
             else
               (case body of
                  BodyInvalid \<Rightarrow> cleaning_failed EngineText s2
                | BodyNull \<Rightarrow> cleaning_failed EngineText s2
                | BodyObj r \<Rightarrow>
                    let recs = (case cr_ai_recommendations r of None \<Rightarrow> [] | Some xs \<Rightarrow> xs);
                        s3 = s2\<lparr>cleanedData := (case cr_preview r of None \<Rightarrow> [] | Some p \<Rightarrow> p),
                                validationResults := cr_validation_results r,
                                aiRecommendations := recs\<rparr>;
                        s4 = (if length recs > 0 then s3\<lparr>showAiRecommendations := True\<rparr> else s3);
                        originalCount = length (originalData s);
                        cleanedCount = rows_or_zero (cr_rows r);
                        s5 = (if significantly_reduced originalCount cleanedCount
                              then s4\<lparr>cl_error := Some (RemovalWarning originalCount cleanedCount)\<rparr>
                              else s4)
                    in s5\<lparr>selectedActions := [], isProcessing := False\<rparr>),
         Some request))"

text \<open>The outcomes after which the handler runs its catch branch.\<close>

fun fetch_failed :: "fetch_outcome \<Rightarrow> bool" where
  "fetch_failed FetchRejected = True"
| "fetch_failed (FetchResponse ok statusText body) =
     (\<not> ok \<or> (case body of BodyObj r \<Rightarrow> False | _ \<Rightarrow> True))"

section \<open>The cleaning pipeline of the session store\<close>

text \<open>
  Modelled from the spec: the server side of a clean call (the endpoint behind
  \<^verbatim>\<open>POST /clean/{role}\<close> and the cleaning operations themselves are not among the
  sources). The spec has each operation a function from dataset to dataset that may
  raise, has the operations applied in the order given, each on the output of the one
  before, and on a raise has \<open>currentDataset\<close> restored and the name of the failing
  operation surfaced; a successful call overwrites \<open>currentDataset\<close> and appends the
  applied names to \<open>cleaningHistory\<close>. The operations are the parameter \<open>impl\<close>:
  \<open>impl name d\<close> is \<open>None\<close> when the operation \<open>name\<close> raises on \<open>d\<close>.
\<close>

record 'd session =
  originalDataset :: 'd
  currentDataset :: 'd
  cleaningHistory :: "string list"

text \<open>
  Modelled from the spec: the operations of a call, not among the sources, run in the
  order given, each on the output of the one before; the first one that raises ends the
  run with its name.
\<close>

fun run_operations :: "(string \<Rightarrow> 'd \<Rightarrow> 'd option) \<Rightarrow> string list \<Rightarrow> 'd \<Rightarrow> string + 'd" where
  "run_operations impl [] d = Inr d"
| "run_operations impl (n # ns) d =
     (case impl n d of None \<Rightarrow> Inl n | Some d' \<Rightarrow> run_operations impl ns d')"

text \<open>
  Modelled from the spec: the clean call of the session store, not among the sources. A
  run that raises leaves the session as it was and answers with the failing name; a run
  that succeeds overwrites \<open>currentDataset\<close> and appends the names to
  \<open>cleaningHistory\<close>.
\<close>

definition clean :: "(string \<Rightarrow> 'd \<Rightarrow> 'd option) \<Rightarrow> string list \<Rightarrow> 'd session \<Rightarrow> 'd session \<times> (string + 'd)" where
  "clean impl ops s =
     (case run_operations impl ops (currentDataset s) of
        Inl n \<Rightarrow> (s, Inl n)
      | Inr d \<Rightarrow> (s\<lparr>currentDataset := d, cleaningHistory := cleaningHistory s @ ops\<rparr>, Inr d))"

text \<open>
  The operation at position \<open>i\<close> raises on the dataset the operations before it
  produce.
\<close>

definition fails_at :: "(string \<Rightarrow> 'd \<Rightarrow> 'd option) \<Rightarrow> string list \<Rightarrow> 'd \<Rightarrow> nat \<Rightarrow> bool" where
  "fails_at impl ops d i =
     (i < length ops \<and>
      (case run_operations impl (take i ops) d of
         Inl n \<Rightarrow> False
       | Inr d' \<Rightarrow> impl (ops ! i) d' = None))"

section \<open>The full preview of \<^verbatim>\<open>FileUpload\<close>\<close>

text \<open>The answer a full-preview call would give: \<^verbatim>\<open>response.data\<close>.\<close>

datatype preview_value = PNull | PObj "row list option"

record upload_state =
  fullData :: "row list"
  showFullPreview :: bool
  isLoadingFullData :: bool

text \<open>
  What a run of \<^verbatim>\<open>handleFullPreview\<close> leaves: the state, the texts passed to
  \<^verbatim>\<open>alert\<close> in order, and whether a request for the full data was made.
\<close>

record preview_run =
  run_state :: upload_state
  run_alerts :: "string list"
  run_requested :: bool

text \<open>
  \<^verbatim>\<open>handleFullPreview\<close>. \<open>sessionId\<close>, \<open>role\<close> and \<open>preview\<close> are the props;
  \<open>served\<close> is what the server would send for the full data.
\<close>

definition handleFullPreview ::
  "string option \<Rightarrow> string option \<Rightarrow> row list option \<Rightarrow> preview_value \<Rightarrow> upload_state \<Rightarrow>
   preview_run" where
  "handleFullPreview sessionId role preview served s =
     (if \<not> truthy sessionId \<or> \<not> truthy role then
        \<lparr>run_state = s, run_alerts = [''No session ID or role available''],
         run_requested = False\<rparr>
      else
        let s1 = s\<lparr>isLoadingFullData := True\<rparr>;
            caught = (\<lambda>requested.
              \<lparr>run_state = s1\<lparr>fullData := (case preview of None \<Rightarrow> [] | Some p \<Rightarrow> p),
                               showFullPreview := True,
                               isLoadingFullData := False\<rparr>,
               run_alerts = [''Error loading full preview data. Please try again.''],
               run_requested = requested\<rparr>)
        in
        case call_apiService ''fullPreviewData'' served of
          Inl e \<Rightarrow> caught False
        | Inr PNull \<Rightarrow> caught True
        | Inr (PObj rows) \<Rightarrow>
            (case rows of
               Some (r # rs) \<Rightarrow>
                 \<lparr>run_state = s1\<lparr>fullData := r # rs, showFullPreview := True,
                                  isLoadingFullData := False\<rparr>,
                  run_alerts = [], run_requested = True\<rparr>
             | _ \<Rightarrow>
                 \<lparr>run_state = s1\<lparr>isLoadingFullData := False\<rparr>,
                  run_alerts = [''No data received from server. Please try again.''],
                  run_requested = True\<rparr>))"

section \<open>The tasks of a role (\<^verbatim>\<open>RoleSpecificTasks\<close>)\<close>

text \<open>A task card; the icon, an emoji, is left out.\<close>

record task =
  task_id :: string
  task_name :: string
  task_description :: string

definition roleTasksMap :: "(string \<times> task list) list" where
  "roleTasksMap =
     [(''business-analyst'',
       [\<lparr>task_id = ''kpi'', task_name = ''KPI Dashboard'',
          task_description = ''Generate key performance indicators''\<rparr>,
        \<lparr>task_id = ''customer_segmentation'', task_name = ''Customer Segmentation'',
          task_description = ''KMeans clustering analysis''\<rparr>,
        \<lparr>task_id = ''revenue_analysis'', task_name = ''Revenue Analysis'',
          task_description = ''Revenue metrics and trends''\<rparr>,
        \<lparr>task_id = ''performance_metrics'', task_name = ''Performance Metrics'',
          task_description = ''Business performance indicators''\<rparr>]),
      (''research-eda'',
       [\<lparr>task_id = ''correlation_matrix'', task_name = ''Correlation Matrix'',
          task_description = ''Variable correlation analysis''\<rparr>,
        \<lparr>task_id = ''summary_stats'', task_name = ''Summary Statistics'',
          task_description = ''Descriptive statistics overview''\<rparr>,
        \<lparr>task_id = ''outliers'', task_name = ''Outlier Detection'',
          task_description = ''Identify and analyze outliers''\<rparr>,
        \<lparr>task_id = ''hypothesis_testing'', task_name = ''Hypothesis Testing'',
          task_description = ''Statistical significance tests''\<rparr>]),
      (''marketing'',
       [\<lparr>task_id = ''roi_analysis'', task_name = ''ROI Analysis'',
          task_description = ''Return on investment metrics''\<rparr>,
        \<lparr>task_id = ''rfm_analysis'', task_name = ''RFM Analysis'',
          task_description = ''Recency, Frequency, Monetary analysis''\<rparr>,
        \<lparr>task_id = ''engagement_funnel'', task_name = ''Engagement Funnel'',
          task_description = ''Customer engagement analysis''\<rparr>,
        \<lparr>task_id = ''persona_clusters'', task_name = ''Persona Clusters'',
          task_description = ''Customer persona segmentation''\<rparr>]),
      (''finance'',
       [\<lparr>task_id = ''forecasting'', task_name = ''Forecasting (Prophet)'',
          task_description = ''Time series forecasting''\<rparr>,
        \<lparr>task_id = ''risk_heatmap'', task_name = ''Risk Heatmap'',
          task_description = ''Financial risk visualization''\<rparr>,
        \<lparr>task_id = ''roi_irr_npv'', task_name = ''ROI/IRR/NPV'',
          task_description = ''Investment analysis metrics''\<rparr>,
        \<lparr>task_id = ''volatility'', task_name = ''Volatility Analysis'',
          task_description = ''Price volatility assessment''\<rparr>]),
      (''predictive-modeling'',
       [\<lparr>task_id = ''automl'', task_name = ''AutoML Pipeline'',
          task_description = ''Automated machine learning''\<rparr>,
        \<lparr>task_id = ''regression_classification'', task_name = ''Regression/Classification'',
          task_description = ''ML model training''\<rparr>,
        \<lparr>task_id = ''model_evaluation'', task_name = ''Model Evaluation'',
          task_description = ''ROC, CM, AUC metrics''\<rparr>,
        \<lparr>task_id = ''drift_monitor'', task_name = ''Drift Monitor'',
          task_description = ''Model drift detection''\<rparr>]),
      (''healthcare'',
       [\<lparr>task_id = ''cohort_survival'', task_name = ''Cohort Survival'',
          task_description = ''Survival analysis by cohorts''\<rparr>,
        \<lparr>task_id = ''prevalence_graph'', task_name = ''Prevalence Graph'',
          task_description = ''Disease prevalence visualization''\<rparr>,
        \<lparr>task_id = ''patient_clustering'', task_name = ''Patient Clustering'',
          task_description = ''Patient segmentation analysis''\<rparr>,
        \<lparr>task_id = ''hospital_stats'', task_name = ''Hospital Statistics'',
          task_description = ''Hospital performance metrics''\<rparr>]),
      (''ecommerce'',
       [\<lparr>task_id = ''market_basket'', task_name = ''Market Basket Analysis'',
          task_description = ''Product association rules''\<rparr>,
        \<lparr>task_id = ''trends'', task_name = ''Sales Trends'',
          task_description = ''Sales trend analysis''\<rparr>,
        \<lparr>task_id = ''order_funnel'', task_name = ''Order Funnel'',
          task_description = ''Purchase funnel analysis''\<rparr>,
        \<lparr>task_id = ''inventory_forecast'', task_name = ''Inventory Forecast'',
          task_description = ''Inventory and price forecasting''\<rparr>]),
      (''general'',
       [\<lparr>task_id = ''auto_eda'', task_name = ''Auto EDA'',
          task_description = ''Automated exploratory data analysis''\<rparr>,
        \<lparr>task_id = ''correlation'', task_name = ''Correlation Analysis'',
          task_description = ''Variable correlation study''\<rparr>,
        \<lparr>task_id = ''gpt_insights'', task_name = ''GPT Insights'',
          task_description = ''AI-powered data insights''\<rparr>,
        \<lparr>task_id = ''auto_queries'', task_name = ''Auto SQL Queries'',
          task_description = ''Automated query generation''\<rparr>])]"

text \<open>
  \<^verbatim>\<open>roleTasksMap[role.id] || roleTasksMap['general']\<close>; an array is always truthy.
\<close>

definition tasks :: "string \<Rightarrow> task list" where
  "tasks rid =
     (case map_of roleTasksMap rid of
        Some ts \<Rightarrow> ts
      | None \<Rightarrow> (case map_of roleTasksMap ''general'' of Some ts \<Rightarrow> ts | None \<Rightarrow> []))"

section \<open>Quality assessment (\<^verbatim>\<open>DataQualityAssessment\<close>)\<close>








section \<open>Facts about the JavaScript helpers\<close>

lemma or_else_idem: "d \<noteq> [] \<Longrightarrow> or_else (Some (or_else v d)) e = or_else v d"
  by (simp add: or_else_def split: option.splits)

lemma trim_no_break_space: "trim [CHR 0xC2, CHR 0xA0] = []"
  by (simp add: trim_def white_space_def)

lemma trim_spaces: "trim ''  show trends  '' = ''show trends''"
  by (simp add: trim_def white_space_def)

section \<open>Confidence of a query result\<close>

text \<open>
  C2 (as stated, refuted): the claim allows only the confidence values 0, 30 and 80. A
  result of type \<open>summary\<close> whose message is \<open>insufficient data\<close> is scored 40.
\<close>

theorem calculateConfidence_forty_counterexample:
  "calculateConfidence
     \<lparr>rtype = Some ''summary'', rmessage = Some ''insufficient data'',
      rdata = None, rresult = None\<rparr> \<notin> {0, 30, 80}"
  by (simp add: calculateConfidence_def truthy_def)

text \<open>
  C2 (amended): \<open>calculateConfidence\<close> gives one of 0, 30, 40 and 80. It gives 0 exactly
  for a result of type \<open>error\<close>, which is what \<open>naturalLanguageQuery\<close> turns a failed
  request into; otherwise 30 exactly when the message contains \<open>No suitable columns\<close>;
  otherwise 40 exactly when the message contains \<open>insufficient data\<close>; and 80 in every
  remaining case.
\<close>

theorem calculateConfidence_values:
  "calculateConfidence r \<in> {0, 30, 40, 80} \<and>
   (calculateConfidence r = 0 \<longleftrightarrow> rtype r = Some ''error'') \<and>
   (calculateConfidence r = 30 \<longleftrightarrow>
      rtype r \<noteq> Some ''error'' \<and>
      truthy (rmessage r) \<and> str_includes (the (rmessage r)) ''No suitable columns'') \<and>
   (calculateConfidence r = 40 \<longleftrightarrow>
      rtype r \<noteq> Some ''error'' \<and>
      \<not> (truthy (rmessage r) \<and> str_includes (the (rmessage r)) ''No suitable columns'') \<and>
      truthy (rmessage r) \<and> str_includes (the (rmessage r)) ''insufficient data'') \<and>
   (calculateConfidence r = 80 \<longleftrightarrow>
      rtype r \<noteq> Some ''error'' \<and>
      \<not> (truthy (rmessage r) \<and> str_includes (the (rmessage r)) ''No suitable columns'') \<and>
      \<not> (truthy (rmessage r) \<and> str_includes (the (rmessage r)) ''insufficient data'')) \<and>
   (naturalLanguageQuery (AxiosErr detail) = VObj r \<longrightarrow> calculateConfidence r = 0)"
  by (auto simp: calculateConfidence_def naturalLanguageQuery_def)

theorem calculateConfidence_values_witness:
  "calculateConfidence
     \<lparr>rtype = Some ''trend'', rmessage = Some ''No suitable columns found'',
      rdata = None, rresult = None\<rparr> = 30 \<and>
   calculateConfidence
     \<lparr>rtype = Some ''error'', rmessage = Some ''Failed to process natural language query.'',
      rdata = None, rresult = None\<rparr> = 0"
  using calculateConfidence_values
    [of "\<lparr>rtype = Some ''trend'', rmessage = Some ''No suitable columns found'',
          rdata = None, rresult = None\<rparr>" None]
    calculateConfidence_values
    [of "\<lparr>rtype = Some ''error'', rmessage = Some ''Failed to process natural language query.'',
          rdata = None, rresult = None\<rparr>" None]
  by (simp add: truthy_def naturalLanguageQuery_def or_else_def)

section \<open>A failed query\<close>

text \<open>
  C3 (as stated, refuted): the claim has a failed downstream call come back as an
  \<open>NLQResponse\<close> with intent \<open>error\<close> and confidence 0. For the query
  \<open>show trends\<close> in session \<open>s1\<close> and a request that fails without detail,
  \<open>handleSubmit\<close> builds no response at all: the response cell stays empty, nothing is
  passed to \<open>onQueryComplete\<close>, and the failure is the text in the error cell.
\<close>

theorem handleSubmit_failure_counterexample:
  "handleSubmit (Some ''s1'') (AxiosErr None)
     \<lparr>nq_query = ''show trends'', nq_isLoading = False, nq_response = None,
      nq_error = None, nq_queryHistory = []\<rparr> =
   (\<lparr>nq_query = ''show trends'', nq_isLoading = False, nq_response = None,
     nq_error = Some (Text ''Failed to process natural language query.''),
     nq_queryHistory = []\<rparr>, None)"
  by (simp add: handleSubmit_def naturalLanguageQuery_def trim_def white_space_def truthy_def
      or_else_def)

text \<open>
  C3 (amended): for every query that is not blank, in a session, whose request fails,
  \<open>naturalLanguageQuery\<close> raises nothing and returns the object of type \<open>error\<close> whose
  message is the detail of the failure or, without one, a fixed text; \<open>handleSubmit\<close>
  then stores that message in the error cell, leaves the response and the history as they
  were, and passes nothing to \<open>onQueryComplete\<close>.
\<close>

theorem handleSubmit_failure_sets_error:
  assumes "trim (nq_query s) \<noteq> []" and "truthy sessionId"
  shows "naturalLanguageQuery (AxiosErr detail) =
           VObj \<lparr>rtype = Some ''error'',
                 rmessage = Some (or_else detail ''Failed to process natural language query.''),
                 rdata = None, rresult = None\<rparr> \<and>
         handleSubmit sessionId (AxiosErr detail) s =
           (s\<lparr>nq_isLoading := False,
               nq_error := Some (Text (or_else detail
                                   ''Failed to process natural language query.''))\<rparr>, None)"
  using assms
  by (simp add: handleSubmit_def naturalLanguageQuery_def or_else_idem)

theorem handleSubmit_failure_sets_error_witness:
  "trim ''show trends'' \<noteq> [] \<and> truthy (Some ''s1'') \<and>
   handleSubmit (Some ''s1'') (AxiosErr (Some ''Session not found''))
     \<lparr>nq_query = ''show trends'', nq_isLoading = False, nq_response = None,
      nq_error = None, nq_queryHistory = []\<rparr> =
   (\<lparr>nq_query = ''show trends'', nq_isLoading = False, nq_response = None,
     nq_error = Some (Text ''Session not found''), nq_queryHistory = []\<rparr>, None)"
proof -
  have q: "trim (nq_query \<lparr>nq_query = ''show trends'', nq_isLoading = False,
      nq_response = None, nq_error = None, nq_queryHistory = []\<rparr>) \<noteq> []"
    by (simp add: trim_def white_space_def)
  have t: "truthy (Some ''s1'')"
    by (simp add: truthy_def)
  show ?thesis
    using handleSubmit_failure_sets_error [OF q t, of "Some ''Session not found''"] q t
    by (simp add: or_else_def)
qed

section \<open>The insight log and the query history\<close>

lemma aiClean_missing: "call_apiService ''aiClean'' x = Inl TypeError"
  by (simp add: call_apiService_def apiService_methods_def)

lemma getAIInsight_present: "call_apiService ''getAIInsight'' x = Inr x"
  by (simp add: call_apiService_def apiService_methods_def)

lemma handleAIInsight_appends_one:
  assumes "truthy sessionId" and "find_role roleId \<noteq> None"
  shows "\<exists>r. insights (handleAIInsight sessionId roleId now cleanOut insightOut q s) =
           insights s @ [\<lparr>question = q, response = r, timestamp = now\<rparr>]"
  using assms
  by (simp add: handleAIInsight_def aiClean_missing getAIInsight_present Let_def
      split: ai_value.splits)

lemma run_insights_log:
  assumes "truthy sessionId" and "find_role roleId \<noteq> None"
  shows "map question (insights (run_insights sessionId roleId cs s)) =
           map question (insights s) @ map (\<lambda>(now, cleanOut, insightOut, q). q) cs \<and>
         map timestamp (insights (run_insights sessionId roleId cs s)) =
           map timestamp (insights s) @ map (\<lambda>(now, cleanOut, insightOut, q). now) cs"
proof (induction cs arbitrary: s)
  case Nil
  then show ?case by simp
next
  case (Cons c cs)
  obtain now cleanOut insightOut q where c: "c = (now, cleanOut, insightOut, q)"
    by (cases c) auto
  obtain r where
    "insights (handleAIInsight sessionId roleId now cleanOut insightOut q s) =
       insights s @ [\<lparr>question = q, response = r, timestamp = now\<rparr>]"
    using handleAIInsight_appends_one [OF assms] by blast
  then show ?case
    using Cons.IH [of "handleAIInsight sessionId roleId now cleanOut insightOut q s"] c
    by simp
qed

lemma handleSubmit_failure_history:
  "nq_queryHistory (fst (handleSubmit sessionId (AxiosErr detail) st)) = nq_queryHistory st"
  by (simp add: handleSubmit_def naturalLanguageQuery_def Let_def)

lemma handleSubmit_success_history:
  "snd (handleSubmit sessionId out st) = Some r \<Longrightarrow>
   nq_queryHistory (fst (handleSubmit sessionId out st)) = r # take 4 (nq_queryHistory st)"
  by (auto simp: handleSubmit_def Let_def split: nlq_value.splits if_splits)

text \<open>
  C4 (as stated, refuted): the claim has every query, failed or not, add one entry to the
  log. After one call of \<open>handleSubmit\<close> whose request fails, the history of the query
  component is still empty.
\<close>

theorem run_queries_failure_counterexample:
  "nq_queryHistory
     (run_queries (Some ''s1'') [(''show trends'', AxiosErr None)]
        \<lparr>nq_query = [], nq_isLoading = False, nq_response = None,
         nq_error = None, nq_queryHistory = []\<rparr>) = []"
  by (simp add: handleSubmit_def naturalLanguageQuery_def trim_def white_space_def truthy_def
      or_else_def)

text \<open>
  C4 (amended): every call of \<open>handleAIInsight\<close> made with a session id and a known
  role, whether its request succeeds or fails, appends exactly one entry (question,
  response, time) to the insight log of the page, so \<open>n\<close> such calls add \<open>n\<close> entries
  in call order. The query component keeps a history of its own instead: a failed query
  leaves it as it was, and a successful one puts its response first and keeps the four
  most recent before it.
\<close>

theorem insight_log_appends:
  assumes "truthy sessionId" and "find_role roleId \<noteq> None"
  shows "length (insights (run_insights sessionId roleId cs s)) =
           length (insights s) + length cs \<and>
         map question (insights (run_insights sessionId roleId cs s)) =
           map question (insights s) @ map (\<lambda>(now, cleanOut, insightOut, q). q) cs \<and>
         map timestamp (insights (run_insights sessionId roleId cs s)) =
           map timestamp (insights s) @ map (\<lambda>(now, cleanOut, insightOut, q). now) cs \<and>
         nq_queryHistory (fst (handleSubmit sid (AxiosErr detail) st)) = nq_queryHistory st \<and>
         (snd (handleSubmit sid out st) = Some r \<longrightarrow>
            nq_queryHistory (fst (handleSubmit sid out st)) = r # take 4 (nq_queryHistory st))"
proof -
  note log = run_insights_log [OF assms, of cs s]
  from log have "length (map question (insights (run_insights sessionId roleId cs s))) =
      length (map question (insights s) @ map (\<lambda>(now, cleanOut, insightOut, q). q) cs)"
    by simp
  then have "length (insights (run_insights sessionId roleId cs s)) =
      length (insights s) + length cs"
    by simp
  with log show ?thesis
    by (simp add: handleSubmit_failure_history handleSubmit_success_history)
qed

theorem insight_log_appends_witness:
  "truthy (Some ''abc123'') \<and> find_role (Some ''general'') \<noteq> None \<and>
   map question
     (insights (run_insights (Some ''abc123'') (Some ''general'')
        [(1, AINull, AxiosErr None, ''What are the key trends?''),
         (2, AINull, AxiosOk AINull, ''clean the data'')]
        \<lparr>insights = [], isProcessingInsight = False, page_error = None\<rparr>)) =
     [''What are the key trends?'', ''clean the data'']"
proof -
  have t: "truthy (Some ''abc123'')"
    by (simp add: truthy_def)
  have r: "find_role (Some ''general'') \<noteq> None"
    by (simp add: find_role_def roles_def)
  show ?thesis
    using insight_log_appends [OF t r,
        where cs = "[(1, AINull, AxiosErr None, ''What are the key trends?''),
                     (2, AINull, AxiosOk AINull, ''clean the data'')]"
          and s = "\<lparr>insights = [], isProcessingInsight = False, page_error = None\<rparr>"
          and sid = "Some ''abc123''" and detail = None and out = "AxiosErr None"
          and st = "\<lparr>nq_query = ''show trends'', nq_isLoading = False, nq_response = None,
                    nq_error = None, nq_queryHistory = []\<rparr>"
          and r = "\<lparr>success = True, query = ''show trends'', answer = [],
                    visualization = None, data = None, confidence = 80,
                    intent = ''trend''\<rparr>"] t r
    by simp
qed

section \<open>The request of an analysis task\<close>

text \<open>
  C9: \<open>handleAnalysis\<close> calls \<open>runAnalysis\<close> with the backend role, the task and the
  session id, and \<open>runAnalysis\<close> takes them as session token, analysis id and role. For
  every known role, every task and every session the request therefore goes to
  \<open>/api/analyze/{sessionId}/analyze/{task}\<close> and carries the backend role name as its
  bearer token.
\<close>

theorem handleAnalysis_swaps_arguments:
  assumes "find_role roleId = Some role" and "truthy sessionId"
  shows "handleAnalysis sessionId roleId task =
           Some \<lparr>req_method = ''POST'',
                 req_url = ''http://localhost:8000/api/analyze/'' @ the sessionId @
                           ''/analyze/'' @ task,
                 req_authorization = ''Bearer '' @ backendRole (role_id role)\<rparr>"
  using assms
  by (simp add: handleAnalysis_def runAnalysis_def API_BASE_URL_def)

theorem handleAnalysis_swaps_arguments_witness:
  "find_role (Some ''finance'') =
     Some \<lparr>role_id = ''finance'', role_name = ''Financial Analysis''\<rparr> \<and>
   truthy (Some ''abc123'') \<and>
   handleAnalysis (Some ''abc123'') (Some ''finance'') ''forecasting'' =
     Some \<lparr>req_method = ''POST'',
           req_url = ''http://localhost:8000/api/analyze/abc123/analyze/forecasting'',
           req_authorization = ''Bearer financial''\<rparr>"
proof -
  have r: "find_role (Some ''finance'') =
             Some \<lparr>role_id = ''finance'', role_name = ''Financial Analysis''\<rparr>"
    by (simp add: find_role_def roles_def)
  have t: "truthy (Some ''abc123'')"
    by (simp add: truthy_def)
  show ?thesis
    using handleAnalysis_swaps_arguments [OF r t, of "''forecasting''"] r t
    by (simp add: backendRole_def roleMapping_def or_else_def)
qed

section \<open>The full preview\<close>

lemma fullPreviewData_missing: "call_apiService ''fullPreviewData'' x = Inl TypeError"
  by (simp add: call_apiService_def apiService_methods_def)

text \<open>
  C10: \<open>apiService\<close> has no method \<open>fullPreviewData\<close>, so with a session id and a role
  present the call raises before any request is made, whatever the server would have
  sent. \<open>handleFullPreview\<close> then runs its catch branch: it alerts, shows the stored
  preview (nothing, when there is none) as the full data, and clears the loading flag.
\<close>

theorem handleFullPreview_falls_back:
  assumes "truthy sessionId" and "truthy role"
  shows "call_apiService ''fullPreviewData'' served = Inl TypeError \<and>
         handleFullPreview sessionId role preview served s =
           \<lparr>run_state = s\<lparr>fullData := (case preview of None \<Rightarrow> [] | Some p \<Rightarrow> p),
                           showFullPreview := True,
                           isLoadingFullData := False\<rparr>,
            run_alerts = [''Error loading full preview data. Please try again.''],
            run_requested = False\<rparr>"
  using assms
  by (simp add: handleFullPreview_def fullPreviewData_missing)

theorem handleFullPreview_falls_back_witness:
  "truthy (Some ''abc123'') \<and> truthy (Some ''marketing'') \<and>
   handleFullPreview (Some ''abc123'') (Some ''marketing'') (Some [[(''id'', ''1'')]])
     (PObj (Some [[(''id'', ''1'')], [(''id'', ''2'')]]))
     \<lparr>fullData = [], showFullPreview = False, isLoadingFullData = False\<rparr> =
   \<lparr>run_state = \<lparr>fullData = [[(''id'', ''1'')]], showFullPreview = True,
                  isLoadingFullData = False\<rparr>,
    run_alerts = [''Error loading full preview data. Please try again.''],
    run_requested = False\<rparr>"
proof -
  have a: "truthy (Some ''abc123'')" and b: "truthy (Some ''marketing'')"
    by (simp_all add: truthy_def)
  show ?thesis
    using handleFullPreview_falls_back [OF a b,
        of "PObj (Some [[(''id'', ''1'')], [(''id'', ''2'')]])" "Some [[(''id'', ''1'')]]"
           "\<lparr>fullData = [], showFullPreview = False, isLoadingFullData = False\<rparr>"] a b
    by simp
qed

section \<open>The tasks of each role\<close>

lemma tasks_length: "length (tasks r) = 4"
  by (simp add: tasks_def roleTasksMap_def)

lemma tasks_distinct: "distinct (map task_id (tasks r))"
  by (simp add: tasks_def roleTasksMap_def)

text \<open>
  C6: every role, whether a key of \<open>roleTasksMap\<close> or a role of \<open>roles.ts\<close> (which
  falls back to the general tasks when it has no entry), is shown exactly four tasks with
  four different ids, and the tasks under \<open>business-analyst\<close> are \<open>kpi\<close>,
  \<open>customer_segmentation\<close>, \<open>revenue_analysis\<close> and \<open>performance_metrics\<close>.
\<close>

theorem tasks_four_per_role:
  assumes "r \<in> set (map fst roleTasksMap) \<union> set (map role_id roles)"
  shows "length (tasks r) = 4 \<and> distinct (map task_id (tasks r)) \<and>
         map task_id (tasks ''business-analyst'') =
           [''kpi'', ''customer_segmentation'', ''revenue_analysis'', ''performance_metrics'']"
  by (simp add: tasks_length tasks_distinct) (simp add: tasks_def roleTasksMap_def)

theorem tasks_four_per_role_witness:
  "''finance'' \<in> set (map fst roleTasksMap) \<union> set (map role_id roles) \<and>
   length (tasks ''finance'') = 4 \<and>
   map task_id (tasks ''finance'') =
     [''forecasting'', ''risk_heatmap'', ''roi_irr_npv'', ''volatility'']"
proof -
  have m: "''finance'' \<in> set (map fst roleTasksMap) \<union> set (map role_id roles)"
    by (simp add: roles_def)
  have ids: "map task_id (tasks ''finance'') =
      [''forecasting'', ''risk_heatmap'', ''roi_irr_npv'', ''volatility'']"
    by (simp add: tasks_def roleTasksMap_def)
  show ?thesis
    using tasks_four_per_role [OF m] m ids by simp
qed

section \<open>Overall score and grade\<close>



section \<open>The removal warning\<close>

lemma significantly_reduced_iff:
  "significantly_reduced originalCount cleanedCount = (5 * cleanedCount < 4 * originalCount)"
proof -
  have "(real cleanedCount < real originalCount * 0.8) =
        (real (5 * cleanedCount) < real (4 * originalCount))"
    by (simp add: field_simps)
  also have "\<dots> = (5 * cleanedCount < 4 * originalCount)"
    by (simp only: of_nat_less_iff)
  finally show ?thesis
    by (simp only: significantly_reduced_def)
qed

lemma removed_fraction:
  "(5 * cleanedCount < 4 * originalCount) =
   (0 < originalCount \<and> (real originalCount - real cleanedCount) / real originalCount > 0.2)"
proof (cases "originalCount = 0")
  case True
  then show ?thesis by simp
next
  case False
  then have pos: "0 < real originalCount" by simp
  have "((real originalCount - real cleanedCount) / real originalCount > 0.2) =
        (real (5 * cleanedCount) < real (4 * originalCount))"
    using pos by (simp add: field_simps)
  also have "\<dots> = (5 * cleanedCount < 4 * originalCount)"
    by (simp only: of_nat_less_iff)
  finally show ?thesis using False by simp
qed

lemma handleApplySelected_success_error:
  "operations_of (selectedActions s) \<noteq> [] \<Longrightarrow>
   cl_error (fst (handleApplySelected preview role sessionId
               (FetchResponse True statusText (BodyObj r)) s)) =
     (if significantly_reduced (length (originalData s)) (rows_or_zero (cr_rows r))
      then Some (RemovalWarning (length (originalData s)) (rows_or_zero (cr_rows r)))
      else None)"
  by (simp add: handleApplySelected_def Let_def split: option.splits)

text \<open>
  C8: after a clean call that succeeds, the error cell holds the removal warning exactly
  when the cleaned row count (\<open>result.rows\<close>, 0 when absent) is less than 0.8 times the
  original row count (the length of \<open>originalData\<close>), and it is empty otherwise; that is
  exactly when there were rows and more than 20% of them were removed.
\<close>

theorem removal_warning_iff:
  assumes "operations_of (selectedActions s) \<noteq> []"
    and "s' = fst (handleApplySelected preview role sessionId
                    (FetchResponse True statusText (BodyObj r)) s)"
    and "c = rows_or_zero (cr_rows r)" and "n = length (originalData s)"
  shows "(cl_error s' = Some (RemovalWarning n c)) = (real c < 0.8 * real n) \<and>
         (cl_error s' = None) = (\<not> real c < 0.8 * real n) \<and>
         (real c < 0.8 * real n) = (0 < n \<and> (real n - real c) / real n > 0.2)"
proof -
  have sr: "significantly_reduced n c = (real c < 0.8 * real n)"
    by (simp add: significantly_reduced_def mult.commute)
  have "cl_error s' = (if real c < 0.8 * real n then Some (RemovalWarning n c) else None)"
    using handleApplySelected_success_error [OF assms(1)] assms(2-4) sr by simp
  moreover have "(real c < 0.8 * real n) = (0 < n \<and> (real n - real c) / real n > 0.2)"
    unfolding sr [symmetric] significantly_reduced_iff removed_fraction ..
  ultimately show ?thesis by simp
qed

theorem removal_warning_iff_witness:
  "operations_of [''remove-nulls''] \<noteq> [] \<and>
   cl_error (fst (handleApplySelected None ''marketing'' ''abc123''
       (FetchResponse True ''OK''
          (BodyObj \<lparr>cr_preview = None, cr_validation_results = None,
                     cr_ai_recommendations = None, cr_rows = Some 3\<rparr>))
       \<lparr>selectedActions = [''remove-nulls''], isProcessing = False, cleanedData = [],
        originalData = [[], [], [], [], []], cl_error = None, validationResults = None,
        aiRecommendations = [], showAiRecommendations = False\<rparr>)) =
     Some (RemovalWarning 5 3)"
proof -
  let ?s = "\<lparr>selectedActions = [''remove-nulls''], isProcessing = False, cleanedData = [],
        originalData = [[], [], [], [], []], cl_error = None, validationResults = None,
        aiRecommendations = [], showAiRecommendations = False\<rparr>"
  let ?r = "\<lparr>cr_preview = None, cr_validation_results = None,
                     cr_ai_recommendations = None, cr_rows = Some 3\<rparr>"
  have ops: "operations_of (selectedActions ?s) \<noteq> []"
    by (simp add: operations_of_def operationMap_def)
  have c: "(3::nat) = rows_or_zero (cr_rows ?r)"
    by (simp add: rows_or_zero_def)
  have n: "(5::nat) = length (originalData ?s)"
    by simp
  show ?thesis
    using removal_warning_iff [OF ops refl c n, of None "''marketing''" "''abc123''" "''OK''"] ops
    by simp
qed

section \<open>The operations a clean call carries\<close>

lemma operationMap_defined:
  "i \<in> set cleaningActions \<Longrightarrow>
   \<exists>n. map_of operationMap i = Some n \<and> n \<in> set supported_operations"
  by (auto simp: cleaningActions_def operationMap_def supported_operations_def)

lemma operations_of_Cons:
  "operations_of (i # sel) =
     (case map_of operationMap i of
        None \<Rightarrow> operations_of sel
      | Some n \<Rightarrow> n # operations_of sel)"
  by (simp add: operations_of_def split: option.splits)

lemma operations_of_selected:
  "set sel \<subseteq> set cleaningActions \<Longrightarrow>
   operations_of sel = map (\<lambda>i. the (map_of operationMap i)) sel \<and>
   set (operations_of sel) \<subseteq> set supported_operations"
proof (induction sel)
  case Nil
  then show ?case by (simp add: operations_of_def)
next
  case (Cons i sel)
  then have "i \<in> set cleaningActions" by simp
  then obtain n where "map_of operationMap i = Some n" "n \<in> set supported_operations"
    using operationMap_defined by blast
  then show ?case using Cons by (auto simp: operations_of_Cons)
qed

lemma operations_of_all: "set (operations_of cleaningActions) = set supported_operations"
  by (simp add: operations_of_def cleaningActions_def operationMap_def
      supported_operations_def insert_commute)

lemma toggleAction_new: "i \<notin> set sel \<Longrightarrow> toggleAction i sel = sel @ [i]"
  by (simp add: toggleAction_def)

lemma clicks_snoc: "clicks (ids @ [i]) = toggleAction i (clicks ids)"
  by (simp add: clicks_def)

lemma clicks_distinct: "distinct ids \<Longrightarrow> clicks ids = ids"
proof (induction ids rule: rev_induct)
  case Nil
  then show ?case by (simp add: clicks_def)
next
  case (snoc i ids)
  then have "clicks ids = ids" and "i \<notin> set ids" by simp_all
  then show ?case by (simp add: clicks_snoc toggleAction_new)
qed

lemma run_operations_append:
  "run_operations impl (xs @ ys) d =
     (case run_operations impl xs d of
        Inl n \<Rightarrow> Inl n
      | Inr d' \<Rightarrow> run_operations impl ys d')"
  by (induction xs arbitrary: d) (auto split: option.splits)

lemma run_operations_total:
  "run_operations (\<lambda>n d. Some (f n d)) ops d = Inr (foldl (\<lambda>d n. f n d) d ops)"
  by (induction ops arbitrary: d) auto

lemma handleApplySelected_request:
  "operations_of (selectedActions s) \<noteq> [] \<Longrightarrow>
   snd (handleApplySelected preview role sessionId out s) =
     Some \<lparr>clean_url = ''http://localhost:5000/clean/'' @
                         or_else (map_of cleaning_roleMapping role) role,
           operations = operations_of (selectedActions s),
           session_id = sessionId\<rparr>"
  by (simp add: handleApplySelected_def Let_def)

lemma toggleAction_set: "set (toggleAction i sel) \<subseteq> insert i (set sel)"
  by (auto simp: toggleAction_def)

lemma toggleAction_distinct: "distinct sel \<Longrightarrow> distinct (toggleAction i sel)"
  by (simp add: toggleAction_def)

lemma clicks_reachable: "set (clicks ids) \<subseteq> set ids \<and> distinct (clicks ids)"
proof (induction ids rule: rev_induct)
  case Nil
  then show ?case by (simp add: clicks_def)
next
  case (snoc i ids)
  then show ?case
    using toggleAction_set [of i "clicks ids"] toggleAction_distinct [of "clicks ids" i]
    by (auto simp: clicks_snoc)
qed

text \<open>
  C7: whatever cards are clicked, the request of a clean call carries the operation name
  of each selected card, in the order in which the cards were selected (for clicks on
  different cards, the order of the clicks); each name is one of the eight supported
  operations, and all eight can be carried. The pipeline applies the names it is given
  from left to right, each operation on the dataset the one before it produced.
\<close>

theorem operations_in_selected_order:
  assumes "set ids \<subseteq> set cleaningActions" and "selectedActions s = clicks ids"
    and "clicks ids \<noteq> []"
  shows "snd (handleApplySelected preview role sessionId out s) =
           Some \<lparr>clean_url = ''http://localhost:5000/clean/'' @
                               or_else (map_of cleaning_roleMapping role) role,
                 operations = map (\<lambda>i. the (map_of operationMap i)) (clicks ids),
                 session_id = sessionId\<rparr> \<and>
         (distinct ids \<longrightarrow> clicks ids = ids) \<and>
         set (map (\<lambda>i. the (map_of operationMap i)) (clicks ids)) \<subseteq> set supported_operations \<and>
         set (operations_of cleaningActions) = set supported_operations \<and>
         run_operations impl (xs @ ys) d =
           (case run_operations impl xs d of
              Inl n \<Rightarrow> Inl n
            | Inr d' \<Rightarrow> run_operations impl ys d') \<and>
         run_operations (\<lambda>n d. Some (f n d)) xs d = Inr (foldl (\<lambda>d n. f n d) d xs)"
proof -
  have "set (clicks ids) \<subseteq> set cleaningActions"
    using clicks_reachable [of ids] assms(1) by blast
  then have ops: "operations_of (clicks ids) = map (\<lambda>i. the (map_of operationMap i)) (clicks ids)"
    and sub: "set (operations_of (clicks ids)) \<subseteq> set supported_operations"
    using operations_of_selected [of "clicks ids"] by blast+
  have "operations_of (selectedActions s) \<noteq> []"
    using ops assms(2,3) by simp
  then have "snd (handleApplySelected preview role sessionId out s) =
           Some \<lparr>clean_url = ''http://localhost:5000/clean/'' @
                               or_else (map_of cleaning_roleMapping role) role,
                 operations = map (\<lambda>i. the (map_of operationMap i)) (clicks ids),
                 session_id = sessionId\<rparr>"
    using handleApplySelected_request [of s preview role sessionId out] assms(2) ops by simp
  moreover have "set (map (\<lambda>i. the (map_of operationMap i)) (clicks ids)) \<subseteq>
      set supported_operations"
    using sub unfolding ops .
  ultimately show ?thesis
    using operations_of_all run_operations_append [of impl xs ys d]
      run_operations_total [of f xs d] clicks_distinct [of ids]
    by blast
qed

theorem operations_in_selected_order_witness:
  "set [''impute'', ''normalize'', ''remove-nulls'', ''normalize''] \<subseteq> set cleaningActions \<and>
   clicks [''impute'', ''normalize'', ''remove-nulls'', ''normalize''] =
     [''impute'', ''remove-nulls''] \<and>
   snd (handleApplySelected None ''finance'' ''abc123'' FetchRejected
     \<lparr>selectedActions = [''impute'', ''remove-nulls''], isProcessing = False,
      cleanedData = [], originalData = [], cl_error = None, validationResults = None,
      aiRecommendations = [], showAiRecommendations = False\<rparr>) =
     Some \<lparr>clean_url = ''http://localhost:5000/clean/financial'',
           operations = [''impute_missing'', ''remove_nulls''],
           session_id = ''abc123''\<rparr>"
proof -
  let ?ids = "[''impute'', ''normalize'', ''remove-nulls'', ''normalize'']"
  let ?s = "\<lparr>selectedActions = [''impute'', ''remove-nulls''], isProcessing = False,
      cleanedData = [], originalData = [], cl_error = None, validationResults = None,
      aiRecommendations = [], showAiRecommendations = False\<rparr>"
  have b: "set ?ids \<subseteq> set cleaningActions"
    by (simp add: cleaningActions_def)
  have e: "clicks ?ids = [''impute'', ''remove-nulls'']"
    by (simp add: clicks_def toggleAction_def)
  then have d: "selectedActions ?s = clicks ?ids" and c: "clicks ?ids \<noteq> []"
    by simp_all
  show ?thesis
    using operations_in_selected_order [OF b d c, where preview = None
        and role = "''finance''" and sessionId = "''abc123''" and out = FetchRejected
        and impl = "\<lambda>n d. Some (d::nat)" and xs = "[]" and ys = "[]" and d = "0::nat"
        and f = "\<lambda>n d. d"] b e
    by (simp add: operationMap_def cleaning_roleMapping_def or_else_def)
qed

section \<open>Atomicity of a clean call\<close>

lemma run_operations_first_failure:
  "fails_at impl ops d i \<Longrightarrow>
   \<exists>j\<le>i. fails_at impl ops d j \<and> run_operations impl ops d = Inl (ops ! j)"
proof (induction ops arbitrary: d i)
  case Nil
  then show ?case by (simp add: fails_at_def)
next
  case (Cons n ns)
  show ?case
  proof (cases "impl n d")
    case None
    then have "fails_at impl (n # ns) d 0 \<and>
        run_operations impl (n # ns) d = Inl ((n # ns) ! 0)"
      by (simp add: fails_at_def)
    then show ?thesis by blast
  next
    case (Some d')
    with Cons.prems obtain i' where i: "i = Suc i'"
      by (cases i) (auto simp: fails_at_def)
    with Cons.prems Some have "fails_at impl ns d' i'"
      by (simp add: fails_at_def split: sum.splits)
    then obtain j where "j \<le> i'" "fails_at impl ns d' j"
        "run_operations impl ns d' = Inl (ns ! j)"
      using Cons.IH by blast
    with Some i have "Suc j \<le> i \<and> fails_at impl (n # ns) d (Suc j) \<and>
        run_operations impl (n # ns) d = Inl ((n # ns) ! Suc j)"
      by (simp add: fails_at_def split: sum.splits)
    then show ?thesis by blast
  qed
qed

text \<open>
  A call the handler takes for failed leaves the cleaned data as it was and stores an
  error text.
\<close>

lemma handleApplySelected_failed:
  "fetch_failed out \<Longrightarrow>
   cleanedData (fst (handleApplySelected preview role sessionId out st)) = cleanedData st \<and>
   cl_error (fst (handleApplySelected preview role sessionId out st)) \<noteq> None"
  by (cases out)
     (auto simp: handleApplySelected_def Let_def cleaning_failed_def
           split: option.splits clean_body.splits)

text \<open>
  On the pipeline of the session store: when some operation of a call raises on the
  dataset it is given, the session is left exactly as it was before the call and the call
  answers with the name of the first operation that raised.
\<close>

lemma clean_restores_session:
  assumes "fails_at impl ops (currentDataset sess) i"
  shows "fst (clean impl ops sess) = sess \<and>
         (\<exists>j\<le>i. fails_at impl ops (currentDataset sess) j \<and>
                 snd (clean impl ops sess) = Inl (ops ! j))"
proof -
  obtain j where j: "j \<le> i" "fails_at impl ops (currentDataset sess) j"
      "run_operations impl ops (currentDataset sess) = Inl (ops ! j)"
    using run_operations_first_failure [OF assms] by blast
  then have "fst (clean impl ops sess) = sess" "snd (clean impl ops sess) = Inl (ops ! j)"
    by (simp_all add: clean_def)
  with j show ?thesis by blast
qed


end
